theory Spec2Isabelle
  imports Main
begin

section \<open>The FFI marshaller of runtime/vm/compiler/ffi/marshaller.h\<close>

text \<open>
  A shallow embedding of \<^verbatim>\<open>BaseMarshaller\<close>, \<^verbatim>\<open>CallMarshaller\<close> and
  \<^verbatim>\<open>CallbackMarshaller\<close>. The header defines some member functions inline; those are
  translated from their bodies. The types the header only includes (native types, native
  locations, the calling convention, class ids, Dart objects) and the index translation,
  which it only declares, are written from the specification, and each such definition
  says so.

  \<^verbatim>\<open>intptr_t\<close> is modelled as \<open>int\<close>: the values are argument and definition indices and
  byte sizes of one signature, far from the range where the machine integer wraps.
  A private field \<^verbatim>\<open>f_\<close> of a C++ class is the record field \<open>f'\<close>.
\<close>

subsection \<open>Native types and native locations\<close>

text \<open>
  Modelled from the spec: the class \<^verbatim>\<open>NativeType\<close> of
  \<^verbatim>\<open>vm/compiler/ffi/native_type.h\<close>, which is not part of the sources. A native type is a
  scalar, integer (pointers included) or floating point, of a size in bytes, or void, or a
  composite of a size in bytes.
\<close>

datatype NativeType =
    NativeInt nat
  | NativeFloat nat
  | NativeVoid
  | NativeCompound nat

text \<open>
  Modelled from the spec: \<^verbatim>\<open>NativeType::IsInt\<close>, not part of the sources. The type is
  of an integer class.
\<close>

fun IsInt :: "NativeType \<Rightarrow> bool" where
  "IsInt (NativeInt _) = True"
| "IsInt _ = False"

text \<open>
  Modelled from the spec: \<^verbatim>\<open>NativeType::IsFloat\<close>, not part of the sources. The type is
  floating point.
\<close>

fun IsFloat :: "NativeType \<Rightarrow> bool" where
  "IsFloat (NativeFloat _) = True"
| "IsFloat _ = False"

text \<open>
  Modelled from the spec: the class \<^verbatim>\<open>NativeLocation\<close> of
  \<^verbatim>\<open>vm/compiler/ffi/native_location.h\<close>, which is not part of the sources. A location is
  a single register, a stack slot at a byte offset, a pointer to memory wrapping the
  location of the pointer, or several locations in sequence for a composite that the ABI
  splits. A register and a stack slot carry the payload type of the value and the container
  type of the place that holds it; a composite is its own container.
\<close>

datatype NativeLocation =
    RegisterLocation NativeType NativeType nat
  | StackLocation NativeType NativeType int
  | PointerToMemory NativeLocation NativeType
  | MultipleLocations NativeType "NativeLocation list"

text \<open>
  Modelled from the spec: \<^verbatim>\<open>NativeLocation::payload_type\<close>, not part of the sources.
  The logical type of the value.
\<close>

fun payload_type :: "NativeLocation \<Rightarrow> NativeType" where
  "payload_type (RegisterLocation p c r) = p"
| "payload_type (StackLocation p c off) = p"
| "payload_type (PointerToMemory ptr t) = t"
| "payload_type (MultipleLocations t ls) = t"

text \<open>
  Modelled from the spec: \<^verbatim>\<open>NativeLocation::container_type\<close>, not part of the sources.
  The type of the place the value is assigned to.
\<close>

fun container_type :: "NativeLocation \<Rightarrow> NativeType" where
  "container_type (RegisterLocation p c r) = c"
| "container_type (StackLocation p c off) = c"
| "container_type (PointerToMemory ptr t) = t"
| "container_type (MultipleLocations t ls) = t"

text \<open>
  Modelled from the spec: the class \<^verbatim>\<open>NativeCallingConvention\<close> of
  \<^verbatim>\<open>vm/compiler/ffi/native_calling_convention.h\<close>, which is not part of the sources. The
  classifier's output exposes \<^verbatim>\<open>argument_locations()\<close>, one location per declared native
  parameter, \<^verbatim>\<open>return_location()\<close> and \<^verbatim>\<open>contains_varargs()\<close>.
\<close>

record NativeCallingConvention =
  argument_locations' :: "NativeLocation list"
  return_location' :: NativeLocation
  contains_varargs' :: bool

subsection \<open>Dart objects\<close>

text \<open>
  Modelled from the spec: the class ids of \<^verbatim>\<open>vm/class_id.h\<close>, which is not part of the
  sources. The header compares class ids with four enumerators; every other class id is
  \<open>OtherCid\<close>.
\<close>

datatype ClassId = kPointerCid | kFfiHandleCid | kFfiBoolCid | kFfiVoidCid | OtherCid nat

text \<open>
  Modelled from the spec: the class \<^verbatim>\<open>AbstractType\<close> of \<^verbatim>\<open>vm/object.h\<close>, which is not
  part of the sources. The header reads the class id of a type and nothing else.
\<close>

datatype AbstractType = AbstractType (type_class_id: ClassId)

text \<open>
  Modelled from the spec: the class \<^verbatim>\<open>FunctionType\<close> of \<^verbatim>\<open>vm/object.h\<close>, which is not
  part of the sources. The native signature as the managed language declares it: an
  ordered sequence of parameter types and a return type.
\<close>

record FunctionType =
  parameter_types :: "AbstractType list"
  result_type :: AbstractType

text \<open>
  Modelled from the spec: the class \<^verbatim>\<open>Function\<close> of \<^verbatim>\<open>vm/object.h\<close>, which is not
  part of the sources. The header reads the name of a function and nothing else.
\<close>

record Function =
  Function_name :: string

subsection \<open>BaseMarshaller\<close>

text \<open>
  Line 28, \<^verbatim>\<open>const intptr_t kResultIndex = -1;\<close> with the comment that values below 0
  index the result.
\<close>

definition kResultIndex :: int where
  "kResultIndex = - 1"

text \<open>
  Lines 172 to 178, the fields of \<^verbatim>\<open>BaseMarshaller\<close>. \<open>zone'\<close> is the arena
  pointer, a handle that identifies the arena. The subclasses extend this record, so every
  function below takes any extension of it.
\<close>

record BaseMarshaller =
  zone' :: nat
  dart_signature' :: Function
  dart_signature_params_start_at' :: int
  c_signature' :: FunctionType
  native_calling_convention' :: NativeCallingConvention

text \<open>
  Lines 159 to 168, the protected constructor: every field is initialised from its
  parameter.
\<close>

definition BaseMarshaller_new ::
  "nat \<Rightarrow> Function \<Rightarrow> int \<Rightarrow> FunctionType \<Rightarrow> NativeCallingConvention \<Rightarrow> BaseMarshaller" where
  "BaseMarshaller_new zone dart_signature dart_signature_params_start_at c_signature
       native_calling_convention =
     \<lparr> zone' = zone,
       dart_signature' = dart_signature,
       dart_signature_params_start_at' = dart_signature_params_start_at,
       c_signature' = c_signature,
       native_calling_convention' = native_calling_convention \<rparr>"

text \<open>Lines 44 to 46: the length of the classifier's argument locations.\<close>

definition num_args :: "'a BaseMarshaller_scheme \<Rightarrow> int" where
  "num_args m = int (length (argument_locations' (native_calling_convention' m)))"

text \<open>
  Modelled from the spec: \<^verbatim>\<open>GrowableArray::At\<close>, not part of the sources. The element
  at an index of the array; querying an index out of range is a fatal assertion failure,
  the value \<open>None\<close>.
\<close>

definition At :: "'a list \<Rightarrow> int \<Rightarrow> 'a option" where
  "At xs i = (if 0 \<le> i \<and> i < int (length xs) then Some (xs ! nat i) else None)"

text \<open>
  Lines 71 to 76: the return location at the sentinel, the argument location at the index
  otherwise.
\<close>

definition Location :: "'a BaseMarshaller_scheme \<Rightarrow> int \<Rightarrow> NativeLocation option" where
  "Location m arg_index =
     (if arg_index = kResultIndex
      then Some (return_location' (native_calling_convention' m))
      else At (argument_locations' (native_calling_convention' m)) arg_index)"

text \<open>
  Lines 92 to 95, under the comment that bitcasting floats to ints is only required in
  SoftFP: the payload type is floating point and the container type is an integer type.
\<close>

definition RequiresBitCast :: "'a BaseMarshaller_scheme \<Rightarrow> int \<Rightarrow> bool option" where
  "RequiresBitCast m index =
     (case Location m index of
        None \<Rightarrow> None
      | Some loc \<Rightarrow> Some (IsFloat (payload_type loc) \<and> IsInt (container_type loc)))"

text \<open>Lines 98 to 100: the payload type of the location.\<close>

definition SignExtendFrom :: "'a BaseMarshaller_scheme \<Rightarrow> int \<Rightarrow> NativeType option" where
  "SignExtendFrom m arg_index = map_option payload_type (Location m arg_index)"

text \<open>
  \<^verbatim>\<open>CType\<close> is declared in the header (line 107) and defined elsewhere. The four
  predicates below read nothing of it but the class id of the type it returns, so they
  take it as the parameter \<open>CType\<close>; where it fails (\<open>None\<close>) they fail.
\<close>

text \<open>Lines 123 to 126: the class id of the C type is \<^verbatim>\<open>kFfiHandleCid\<close>.\<close>

definition IsHandle ::
  "('a BaseMarshaller_scheme \<Rightarrow> int \<Rightarrow> AbstractType option) \<Rightarrow> 'a BaseMarshaller_scheme \<Rightarrow> int
     \<Rightarrow> bool option" where
  "IsHandle CType m arg_index =
     map_option (\<lambda>t. type_class_id t = kFfiHandleCid) (CType m arg_index)"

text \<open>
  Lines 112 to 118: false of a handle, and otherwise the class id of the C type is
  \<^verbatim>\<open>kPointerCid\<close>.
\<close>

definition IsPointer ::
  "('a BaseMarshaller_scheme \<Rightarrow> int \<Rightarrow> AbstractType option) \<Rightarrow> 'a BaseMarshaller_scheme \<Rightarrow> int
     \<Rightarrow> bool option" where
  "IsPointer CType m arg_index =
     (case IsHandle CType m arg_index of
        None \<Rightarrow> None
      | Some True \<Rightarrow> Some False
      | Some False \<Rightarrow> map_option (\<lambda>t. type_class_id t = kPointerCid) (CType m arg_index))"

text \<open>Lines 127 to 130: the class id of the C type is \<^verbatim>\<open>kFfiBoolCid\<close>.\<close>

definition IsBool ::
  "('a BaseMarshaller_scheme \<Rightarrow> int \<Rightarrow> AbstractType option) \<Rightarrow> 'a BaseMarshaller_scheme \<Rightarrow> int
     \<Rightarrow> bool option" where
  "IsBool CType m arg_index =
     map_option (\<lambda>t. type_class_id t = kFfiBoolCid) (CType m arg_index)"

text \<open>Lines 135 to 138: the class id of the C type is \<^verbatim>\<open>kFfiVoidCid\<close>.\<close>

definition IsVoid ::
  "('a BaseMarshaller_scheme \<Rightarrow> int \<Rightarrow> AbstractType option) \<Rightarrow> 'a BaseMarshaller_scheme \<Rightarrow> int
     \<Rightarrow> bool option" where
  "IsVoid CType m arg_index =
     map_option (\<lambda>t. type_class_id t = kFfiVoidCid) (CType m arg_index)"

text \<open>Lines 142 to 144.\<close>

definition contains_varargs :: "'a BaseMarshaller_scheme \<Rightarrow> bool" where
  "contains_varargs m = contains_varargs' (native_calling_convention' m)"

text \<open>
  An index the queries accept: the return sentinel or the position of a native parameter.
\<close>

definition valid_arg_index :: "'a BaseMarshaller_scheme \<Rightarrow> int \<Rightarrow> bool" where
  "valid_arg_index m i = (i = kResultIndex \<or> (0 \<le> i \<and> i < num_args m))"

subsection \<open>CallMarshaller and CallbackMarshaller\<close>

text \<open>
  Lines 181 to 198: \<^verbatim>\<open>CallMarshaller\<close> adds no field, and its constructor passes every
  argument on to the base constructor.
\<close>

type_synonym CallMarshaller = BaseMarshaller

definition CallMarshaller_new ::
  "nat \<Rightarrow> Function \<Rightarrow> int \<Rightarrow> FunctionType \<Rightarrow> NativeCallingConvention \<Rightarrow> CallMarshaller" where
  "CallMarshaller_new zone dart_signature dart_signature_params_start_at c_signature
       native_calling_convention =
     BaseMarshaller_new zone dart_signature dart_signature_params_start_at c_signature
       native_calling_convention"

text \<open>
  Lines 223 to 259: \<^verbatim>\<open>CallbackMarshaller\<close> adds \<^verbatim>\<open>callback_locs_\<close>. Its constructor has
  no parameter for the start of the Dart parameters: it passes the literal 0 to the base
  constructor.
\<close>

record CallbackMarshaller = BaseMarshaller +
  callback_locs' :: "NativeLocation list"

definition CallbackMarshaller_new ::
  "nat \<Rightarrow> Function \<Rightarrow> FunctionType \<Rightarrow> NativeCallingConvention \<Rightarrow> NativeLocation list
     \<Rightarrow> CallbackMarshaller" where
  "CallbackMarshaller_new zone dart_signature c_signature native_calling_convention callback_locs =
     BaseMarshaller.extend
       (BaseMarshaller_new zone dart_signature 0 c_signature native_calling_convention)
       (CallbackMarshaller.fields callback_locs)"

text \<open>Lines 151 to 156, the accessors of the signature pair.\<close>

definition dart_signature :: "'a BaseMarshaller_scheme \<Rightarrow> Function" where
  "dart_signature m = dart_signature' m"

definition dart_signature_params_start_at :: "'a BaseMarshaller_scheme \<Rightarrow> int" where
  "dart_signature_params_start_at m = dart_signature_params_start_at' m"

definition c_signature :: "'a BaseMarshaller_scheme \<Rightarrow> FunctionType" where
  "c_signature m = c_signature' m"

definition function_name :: "'a BaseMarshaller_scheme \<Rightarrow> string" where
  "function_name m = Function_name (dart_signature' m)"

subsection \<open>Definitions and the three index spaces\<close>

text \<open>
  The header declares the index translation and defines none of it. The definitions of
  this subsection follow the specification: an argument index is a position in the native
  signature or the reserved sentinel of the return value; a definition-in-argument index is
  a 0-based offset within the definitions of one argument; the global definition index is
  flattened, 0-based, across all arguments in declaration order. A query at an index that
  is not valid is an assertion failure, the value \<open>None\<close>.
\<close>

text \<open>
  Modelled from the spec: the definition count of one location, which the bodies of
  \<^verbatim>\<open>NumDefinitions\<close> and \<^verbatim>\<open>NumReturnDefinitions\<close> (not part of the sources) derive
  from it. It is 1 for a register, a stack slot and a pointer to memory, and N for a
  composite split across N locations.

  The header's comment on \<^verbatim>\<open>NumDefinitions\<close> (lines 51 to 54) adds that the definitions of
  a struct may also correspond to word-sized chunks, and does not say when. The index
  translation below therefore takes the count of a location as its parameter \<open>count\<close>,
  and \<open>NumLocationDefinitions\<close> is the instance the specification describes.
\<close>

fun NumLocationDefinitions :: "NativeLocation \<Rightarrow> int" where
  "NumLocationDefinitions (MultipleLocations t ls) = int (length ls)"
| "NumLocationDefinitions _ = 1"

text \<open>
  Modelled from the spec: the body of \<^verbatim>\<open>BaseMarshaller::NumReturnDefinitions\<close>, not
  part of the sources. The definition count derived from the return's location.
\<close>

definition NumReturnDefinitions ::
  "(NativeLocation \<Rightarrow> int) \<Rightarrow> 'a BaseMarshaller_scheme \<Rightarrow> int" where
  "NumReturnDefinitions count m = count (return_location' (native_calling_convention' m))"

text \<open>
  Modelled from the spec: the body of \<^verbatim>\<open>BaseMarshaller::ArgumentIndexIsReturn\<close>, not
  part of the sources. It classifies an argument index as the return slot, which the
  reserved sentinel denotes, or a real argument.
\<close>

definition ArgumentIndexIsReturn :: "'a BaseMarshaller_scheme \<Rightarrow> int \<Rightarrow> bool" where
  "ArgumentIndexIsReturn m arg_index = (arg_index = kResultIndex)"

text \<open>
  Modelled from the spec: the body of \<^verbatim>\<open>BaseMarshaller::DefinitionIndexIsReturn\<close>, not
  part of the sources. It classifies a global definition index as belonging to the return
  slot or to a real argument; the header says of \<^verbatim>\<open>kResultIndex\<close> that values below 0
  index the result, which might be multiple.
\<close>

definition DefinitionIndexIsReturn :: "'a BaseMarshaller_scheme \<Rightarrow> int \<Rightarrow> bool" where
  "DefinitionIndexIsReturn m def_index_global = (def_index_global \<le> kResultIndex)"

text \<open>
  Modelled from the spec: the body of \<^verbatim>\<open>BaseMarshaller::NumDefinitions(intptr_t)\<close>, not
  part of the sources. The definition count derived from the location of the argument, or
  of the return at the sentinel.
\<close>

definition NumDefinitions_arg ::
  "(NativeLocation \<Rightarrow> int) \<Rightarrow> 'a BaseMarshaller_scheme \<Rightarrow> int \<Rightarrow> int option" where
  "NumDefinitions_arg count m arg_index =
     (if ArgumentIndexIsReturn m arg_index then Some (NumReturnDefinitions count m)
      else map_option count (Location m arg_index))"

text \<open>
  Modelled from the spec: the loop over the arguments that the bodies of
  \<^verbatim>\<open>NumDefinitions()\<close> and \<^verbatim>\<open>FirstDefinitionIndex\<close> (not part of the sources) share.
  It adds up the definitions of the arguments \<open>0, \<dots>, n - 1\<close>: in the flattened index space
  this is the global index at which argument \<open>n\<close> starts.
\<close>

fun DefinitionsBefore ::
  "(NativeLocation \<Rightarrow> int) \<Rightarrow> 'a BaseMarshaller_scheme \<Rightarrow> nat \<Rightarrow> int option" where
  "DefinitionsBefore count m 0 = Some 0"
| "DefinitionsBefore count m (Suc n) =
     (case DefinitionsBefore count m n of
        None \<Rightarrow> None
      | Some num_defs \<Rightarrow>
          (case NumDefinitions_arg count m (int n) of
             None \<Rightarrow> None
           | Some k \<Rightarrow> Some (num_defs + k)))"

text \<open>
  Modelled from the spec: the body of \<^verbatim>\<open>BaseMarshaller::NumDefinitions()\<close>, not part of
  the sources. The size of the flattened index space: the global index at which an
  argument after the last one would start. The definitions of the return are excluded.
\<close>

definition NumDefinitions ::
  "(NativeLocation \<Rightarrow> int) \<Rightarrow> 'a BaseMarshaller_scheme \<Rightarrow> int option" where
  "NumDefinitions count m = DefinitionsBefore count m (nat (num_args m))"

text \<open>
  Modelled from the spec: the body of \<^verbatim>\<open>BaseMarshaller::FirstDefinitionIndex\<close>, not
  part of the sources. The global index of the first definition of an argument; the
  definitions of the return start at the sentinel.
\<close>

definition FirstDefinitionIndex ::
  "(NativeLocation \<Rightarrow> int) \<Rightarrow> 'a BaseMarshaller_scheme \<Rightarrow> int \<Rightarrow> int option" where
  "FirstDefinitionIndex count m arg_index =
     (if ArgumentIndexIsReturn m arg_index then Some kResultIndex
      else if 0 \<le> arg_index \<and> arg_index < num_args m
      then DefinitionsBefore count m (nat arg_index)
      else None)"

text \<open>
  Modelled from the spec: the body of \<^verbatim>\<open>BaseMarshaller::DefinitionIndex\<close>, not part of
  the sources. The global index of a definition of an argument: the local index counted up
  from the first definition of the argument, and counted down from the sentinel for the
  return.
\<close>

definition DefinitionIndex ::
  "(NativeLocation \<Rightarrow> int) \<Rightarrow> 'a BaseMarshaller_scheme \<Rightarrow> int \<Rightarrow> int \<Rightarrow> int option" where
  "DefinitionIndex count m def_index_in_arg arg_index =
     (if ArgumentIndexIsReturn m arg_index then Some (kResultIndex - def_index_in_arg)
      else map_option (\<lambda>first. first + def_index_in_arg)
             (FirstDefinitionIndex count m arg_index))"

text \<open>
  Modelled from the spec: the body of \<^verbatim>\<open>BaseMarshaller::DefinitionInArgument\<close>, not
  part of the sources. The local index of a global index within an argument: its distance
  from the first definition of the argument.
\<close>

definition DefinitionInArgument ::
  "(NativeLocation \<Rightarrow> int) \<Rightarrow> 'a BaseMarshaller_scheme \<Rightarrow> int \<Rightarrow> int \<Rightarrow> int option" where
  "DefinitionInArgument count m def_index_global arg_index =
     (if ArgumentIndexIsReturn m arg_index then Some (kResultIndex - def_index_global)
      else map_option (\<lambda>first. def_index_global - first)
             (FirstDefinitionIndex count m arg_index))"

text \<open>
  Modelled from the spec: the loop of \<^verbatim>\<open>BaseMarshaller::ArgumentIndex\<close>, whose body is
  not part of the sources. \<open>n\<close> arguments are left, \<open>arg_index\<close> is the next one and
  \<open>defs\<close> counts the definitions of the arguments before it. The argument found is the
  first whose definitions reach beyond the global index.
\<close>

fun ArgumentIndexFrom ::
  "(NativeLocation \<Rightarrow> int) \<Rightarrow> 'a BaseMarshaller_scheme \<Rightarrow> nat \<Rightarrow> int \<Rightarrow> int \<Rightarrow> int
     \<Rightarrow> int option" where
  "ArgumentIndexFrom count m 0 arg_index defs def_index_global = None"
| "ArgumentIndexFrom count m (Suc n) arg_index defs def_index_global =
     (case NumDefinitions_arg count m arg_index of
        None \<Rightarrow> None
      | Some k \<Rightarrow>
          if def_index_global < defs + k then Some arg_index
          else ArgumentIndexFrom count m n (arg_index + 1) (defs + k) def_index_global)"

text \<open>
  Modelled from the spec: the body of \<^verbatim>\<open>BaseMarshaller::ArgumentIndex\<close>, not part of
  the sources. The argument a global definition index belongs to: the sentinel for a
  definition of the return, the argument the scan finds otherwise. A global index that
  belongs to no argument and to no definition of the return is not valid.
\<close>

definition ArgumentIndex ::
  "(NativeLocation \<Rightarrow> int) \<Rightarrow> 'a BaseMarshaller_scheme \<Rightarrow> int \<Rightarrow> int option" where
  "ArgumentIndex count m def_index_global =
     (if DefinitionIndexIsReturn m def_index_global
      then (if kResultIndex - def_index_global < NumReturnDefinitions count m
            then Some kResultIndex else None)
      else ArgumentIndexFrom count m (nat (num_args m)) 0 0 def_index_global)"

subsection \<open>Example signatures\<close>

text \<open>
  The native signature \<^verbatim>\<open>(int32, double) -> int32\<close> classified into an integer and a
  floating-point register, as a call marshaller of a closure (the Dart parameters start
  at 1).
\<close>

definition example_c_signature :: FunctionType where
  "example_c_signature =
     \<lparr> parameter_types = [AbstractType (OtherCid 32), AbstractType (OtherCid 64)],
       result_type = AbstractType (OtherCid 32) \<rparr>"

definition example_function :: Function where
  "example_function = \<lparr> Function_name = ''f'' \<rparr>"

definition example_convention :: NativeCallingConvention where
  "example_convention =
     \<lparr> argument_locations' =
         [RegisterLocation (NativeInt 4) (NativeInt 4) 0,
          RegisterLocation (NativeFloat 8) (NativeFloat 8) 1],
       return_location' = RegisterLocation (NativeInt 4) (NativeInt 4) 0,
       contains_varargs' = False \<rparr>"

definition example_marshaller :: CallMarshaller where
  "example_marshaller =
     CallMarshaller_new 0 example_function 1 example_c_signature example_convention"

text \<open>
  A soft-float convention carries the \<^verbatim>\<open>float\<close> argument in an integer register; the
  second location is the reverse, an integer carried in a floating-point register.
\<close>

definition softfp_convention :: NativeCallingConvention where
  "softfp_convention =
     \<lparr> argument_locations' =
         [RegisterLocation (NativeFloat 4) (NativeInt 4) 0,
          RegisterLocation (NativeInt 4) (NativeFloat 4) 0],
       return_location' = RegisterLocation (NativeFloat 4) (NativeFloat 4) 0,
       contains_varargs' = False \<rparr>"

definition softfp_marshaller :: CallMarshaller where
  "softfp_marshaller =
     CallMarshaller_new 0 example_function 1 example_c_signature softfp_convention"

text \<open>
  An instance of the parameter \<open>CType\<close> for a signature without variadic arguments: the
  declared result type for the sentinel, the declared parameter type at the index otherwise.
\<close>

definition declared_type :: "'a BaseMarshaller_scheme \<Rightarrow> int \<Rightarrow> AbstractType option" where
  "declared_type m arg_index =
     (if arg_index = kResultIndex then Some (result_type (c_signature' m))
      else At (parameter_types (c_signature' m)) arg_index)"

text \<open>The native signature \<^verbatim>\<open>(Handle, Pointer, Bool) -> Void\<close>.\<close>

definition handle_c_signature :: FunctionType where
  "handle_c_signature =
     \<lparr> parameter_types =
         [AbstractType kFfiHandleCid, AbstractType kPointerCid, AbstractType kFfiBoolCid],
       result_type = AbstractType kFfiVoidCid \<rparr>"

definition handle_convention :: NativeCallingConvention where
  "handle_convention =
     \<lparr> argument_locations' =
         [RegisterLocation (NativeInt 8) (NativeInt 8) 0,
          RegisterLocation (NativeInt 8) (NativeInt 8) 1,
          RegisterLocation (NativeInt 1) (NativeInt 1) 2],
       return_location' = RegisterLocation NativeVoid NativeVoid 0,
       contains_varargs' = False \<rparr>"

definition handle_marshaller :: CallMarshaller where
  "handle_marshaller =
     CallMarshaller_new 0 example_function 0 handle_c_signature handle_convention"

text \<open>
  A signature with a 16-byte composite argument that the ABI splits across an integer and a
  floating-point register, between an integer in a register and a pointer on the stack,
  returning a 24-byte composite through a pointer to memory.
\<close>

definition struct_convention :: NativeCallingConvention where
  "struct_convention =
     \<lparr> argument_locations' =
         [RegisterLocation (NativeInt 4) (NativeInt 4) 1,
          MultipleLocations (NativeCompound 16)
            [RegisterLocation (NativeInt 8) (NativeInt 8) 2,
             RegisterLocation (NativeFloat 8) (NativeFloat 8) 0],
          StackLocation (NativeInt 8) (NativeInt 8) 0],
       return_location' =
         PointerToMemory (RegisterLocation (NativeInt 8) (NativeInt 8) 0) (NativeCompound 24),
       contains_varargs' = False \<rparr>"

definition struct_c_signature :: FunctionType where
  "struct_c_signature =
     \<lparr> parameter_types =
         [AbstractType (OtherCid 32), AbstractType (OtherCid 100), AbstractType kPointerCid],
       result_type = AbstractType (OtherCid 101) \<rparr>"

definition struct_marshaller :: CallMarshaller where
  "struct_marshaller =
     CallMarshaller_new 0 example_function 1 struct_c_signature struct_convention"

section \<open>Properties\<close>

subsection \<open>The queries the header defines\<close>

lemma Location_valid:
  "valid_arg_index m i \<Longrightarrow> \<exists>loc. Location m i = Some loc"
  by (auto simp: valid_arg_index_def Location_def num_args_def At_def)

text \<open>
  C5. For every valid index, \<^verbatim>\<open>Location\<close> returns the classifier's return location at the
  return sentinel \<^verbatim>\<open>kResultIndex\<close>, and the classifier's argument location at that index
  otherwise.
\<close>

theorem Location_return_or_argument:
  "valid_arg_index m i \<Longrightarrow>
   Location m i =
     Some (if i = kResultIndex then return_location' (native_calling_convention' m)
           else argument_locations' (native_calling_convention' m) ! nat i)"
  by (auto simp: valid_arg_index_def Location_def num_args_def At_def)

theorem Location_return_or_argument_witness:
  "valid_arg_index example_marshaller 1 \<and> valid_arg_index example_marshaller kResultIndex \<and>
   Location example_marshaller 1 = Some (RegisterLocation (NativeFloat 8) (NativeFloat 8) 1) \<and>
   Location example_marshaller kResultIndex = Some (RegisterLocation (NativeInt 4) (NativeInt 4) 0)"
proof -
  have v1: "valid_arg_index example_marshaller 1"
    by (simp add: valid_arg_index_def num_args_def example_marshaller_def CallMarshaller_new_def
        BaseMarshaller_new_def example_convention_def)
  have v2: "valid_arg_index example_marshaller kResultIndex"
    by (simp add: valid_arg_index_def)
  show ?thesis
    using v1 v2 Location_return_or_argument [OF v1] Location_return_or_argument [OF v2]
    by (simp add: kResultIndex_def example_marshaller_def CallMarshaller_new_def
        BaseMarshaller_new_def example_convention_def)
qed

text \<open>
  C2, as the code has it. For every valid index, \<^verbatim>\<open>RequiresBitCast\<close> is true exactly when
  the payload type of the location is floating point and its container type is an integer
  type. It is false for a float in a float container, for an integer in an integer
  container, and also for the reverse case, an integer in a float container.
\<close>

theorem RequiresBitCast_float_in_int:
  "valid_arg_index m i \<Longrightarrow>
   \<exists>loc. Location m i = Some loc \<and>
     RequiresBitCast m i = Some (IsFloat (payload_type loc) \<and> IsInt (container_type loc)) \<and>
     (IsFloat (payload_type loc) \<and> IsFloat (container_type loc) \<longrightarrow>
        RequiresBitCast m i = Some False) \<and>
     (IsInt (payload_type loc) \<and> IsInt (container_type loc) \<longrightarrow>
        RequiresBitCast m i = Some False) \<and>
     (IsInt (payload_type loc) \<and> IsFloat (container_type loc) \<longrightarrow>
        RequiresBitCast m i = Some False)"
proof -
  assume "valid_arg_index m i"
  then obtain loc where loc: "Location m i = Some loc"
    using Location_valid by blast
  have excl: "\<not> (IsFloat t \<and> IsInt t)" for t
    by (cases t) simp_all
  show ?thesis
    using loc excl by (auto simp: RequiresBitCast_def)
qed

theorem RequiresBitCast_float_in_int_witness:
  "valid_arg_index softfp_marshaller 0 \<and> valid_arg_index softfp_marshaller 1 \<and>
   valid_arg_index softfp_marshaller kResultIndex \<and> valid_arg_index example_marshaller 0 \<and>
   RequiresBitCast softfp_marshaller 0 = Some True \<and>
   RequiresBitCast softfp_marshaller 1 = Some False \<and>
   RequiresBitCast softfp_marshaller kResultIndex = Some False \<and>
   RequiresBitCast example_marshaller 0 = Some False"
proof -
  have v0: "valid_arg_index softfp_marshaller 0"
    by (simp add: valid_arg_index_def num_args_def softfp_marshaller_def CallMarshaller_new_def
        BaseMarshaller_new_def softfp_convention_def)
  have v1: "valid_arg_index softfp_marshaller 1"
    by (simp add: valid_arg_index_def num_args_def softfp_marshaller_def CallMarshaller_new_def
        BaseMarshaller_new_def softfp_convention_def)
  have vr: "valid_arg_index softfp_marshaller kResultIndex"
    by (simp add: valid_arg_index_def)
  have ve: "valid_arg_index example_marshaller 0"
    by (simp add: valid_arg_index_def num_args_def example_marshaller_def CallMarshaller_new_def
        BaseMarshaller_new_def example_convention_def)
  have l0: "Location softfp_marshaller 0 = Some (RegisterLocation (NativeFloat 4) (NativeInt 4) 0)"
    by (simp add: Location_def At_def kResultIndex_def softfp_marshaller_def
        CallMarshaller_new_def BaseMarshaller_new_def softfp_convention_def)
  have l1: "Location softfp_marshaller 1 = Some (RegisterLocation (NativeInt 4) (NativeFloat 4) 0)"
    by (simp add: Location_def At_def kResultIndex_def softfp_marshaller_def
        CallMarshaller_new_def BaseMarshaller_new_def softfp_convention_def)
  have lr: "Location softfp_marshaller kResultIndex =
      Some (RegisterLocation (NativeFloat 4) (NativeFloat 4) 0)"
    by (simp add: Location_def softfp_marshaller_def
        CallMarshaller_new_def BaseMarshaller_new_def softfp_convention_def)
  have le: "Location example_marshaller 0 = Some (RegisterLocation (NativeInt 4) (NativeInt 4) 0)"
    by (simp add: Location_def At_def kResultIndex_def example_marshaller_def
        CallMarshaller_new_def BaseMarshaller_new_def example_convention_def)
  show ?thesis
    using v0 v1 vr ve
      RequiresBitCast_float_in_int [OF v0] RequiresBitCast_float_in_int [OF v1]
      RequiresBitCast_float_in_int [OF vr] RequiresBitCast_float_in_int [OF ve]
    by (simp add: l0 l1 lr le)
qed

text \<open>
  C2, as the claim states it, fails at an integer carried in a floating-point container:
  the claim makes \<^verbatim>\<open>RequiresBitCast\<close> true there, the code returns false.
\<close>

theorem RequiresBitCast_int_in_float_counterexample:
  "valid_arg_index softfp_marshaller 1 \<and>
   Location softfp_marshaller 1 = Some (RegisterLocation (NativeInt 4) (NativeFloat 4) 0) \<and>
   IsInt (payload_type (RegisterLocation (NativeInt 4) (NativeFloat 4) 0)) \<and>
   IsFloat (container_type (RegisterLocation (NativeInt 4) (NativeFloat 4) 0)) \<and>
   RequiresBitCast softfp_marshaller 1 = Some False"
  by (simp add: valid_arg_index_def num_args_def RequiresBitCast_def Location_def At_def
      kResultIndex_def softfp_marshaller_def CallMarshaller_new_def BaseMarshaller_new_def
      softfp_convention_def)

text \<open>
  C6. Whenever \<^verbatim>\<open>IsHandle\<close> is true of an argument, \<^verbatim>\<open>IsPointer\<close> and \<^verbatim>\<open>IsBool\<close> are
  false of it, and whenever \<^verbatim>\<open>IsVoid\<close> is true of it, \<^verbatim>\<open>IsPointer\<close> and \<^verbatim>\<open>IsBool\<close> are
  false of it, whatever \<^verbatim>\<open>CType\<close> computes.
\<close>

theorem IsHandle_IsVoid_exclude_IsPointer_IsBool:
  "(IsHandle CType m arg_index = Some True \<longrightarrow>
      IsPointer CType m arg_index = Some False \<and> IsBool CType m arg_index = Some False) \<and>
   (IsVoid CType m arg_index = Some True \<longrightarrow>
      IsPointer CType m arg_index = Some False \<and> IsBool CType m arg_index = Some False)"
  by (cases "CType m arg_index") (auto simp: IsHandle_def IsVoid_def IsPointer_def IsBool_def)

theorem IsHandle_IsVoid_exclude_IsPointer_IsBool_witness:
  "IsHandle declared_type handle_marshaller 0 = Some True \<and>
   IsPointer declared_type handle_marshaller 0 = Some False \<and>
   IsBool declared_type handle_marshaller 0 = Some False \<and>
   IsVoid declared_type handle_marshaller kResultIndex = Some True \<and>
   IsPointer declared_type handle_marshaller kResultIndex = Some False \<and>
   IsBool declared_type handle_marshaller kResultIndex = Some False"
proof -
  have h: "IsHandle declared_type handle_marshaller 0 = Some True"
    by (simp add: IsHandle_def declared_type_def At_def kResultIndex_def handle_marshaller_def
        CallMarshaller_new_def BaseMarshaller_new_def handle_c_signature_def)
  have v: "IsVoid declared_type handle_marshaller kResultIndex = Some True"
    by (simp add: IsVoid_def declared_type_def handle_marshaller_def
        CallMarshaller_new_def BaseMarshaller_new_def handle_c_signature_def)
  show ?thesis
    using h v
      IsHandle_IsVoid_exclude_IsPointer_IsBool [of declared_type handle_marshaller 0]
      IsHandle_IsVoid_exclude_IsPointer_IsBool [of declared_type handle_marshaller kResultIndex]
    by simp
qed

text \<open>
  C10. A \<^verbatim>\<open>CallbackMarshaller\<close> is constructed with the start of the Dart parameters fixed
  to 0: whatever the constructor is given, \<^verbatim>\<open>dart_signature_params_start_at()\<close> of the new
  object is 0.
\<close>

theorem CallbackMarshaller_params_start_at_0:
  "dart_signature_params_start_at
     (CallbackMarshaller_new zone f c_sig convention callback_locs) = 0"
  by (simp add: dart_signature_params_start_at_def CallbackMarshaller_new_def
      BaseMarshaller_new_def BaseMarshaller.extend_def)

subsection \<open>The index translation\<close>

lemmas struct_marshaller_simps =
  struct_marshaller_def CallMarshaller_new_def BaseMarshaller_new_def struct_convention_def

text \<open>
  C4. For every valid index, \<^verbatim>\<open>ArgumentIndexIsReturn\<close> is true exactly at the sentinel
  \<^verbatim>\<open>kResultIndex\<close>, and exactly when the index is not the index of a real argument:
  the sentinel collides with no argument index.
\<close>

theorem ArgumentIndexIsReturn_sentinel:
  "valid_arg_index m x \<Longrightarrow>
   (ArgumentIndexIsReturn m x \<longleftrightarrow> x = kResultIndex) \<and>
   (ArgumentIndexIsReturn m x \<longleftrightarrow> \<not> (0 \<le> x \<and> x < num_args m))"
  by (auto simp: valid_arg_index_def ArgumentIndexIsReturn_def kResultIndex_def)

theorem ArgumentIndexIsReturn_sentinel_witness:
  "valid_arg_index example_marshaller kResultIndex \<and> valid_arg_index example_marshaller 0 \<and>
   valid_arg_index example_marshaller 1 \<and>
   ArgumentIndexIsReturn example_marshaller kResultIndex \<and>
   \<not> ArgumentIndexIsReturn example_marshaller 0 \<and>
   \<not> ArgumentIndexIsReturn example_marshaller 1"
proof -
  have n: "num_args example_marshaller = 2"
    by (simp add: num_args_def example_marshaller_def CallMarshaller_new_def
        BaseMarshaller_new_def example_convention_def)
  have vr: "valid_arg_index example_marshaller kResultIndex"
    and v0: "valid_arg_index example_marshaller 0"
    and v1: "valid_arg_index example_marshaller 1"
    by (simp_all add: valid_arg_index_def n)
  from ArgumentIndexIsReturn_sentinel [OF vr] ArgumentIndexIsReturn_sentinel [OF v0]
    ArgumentIndexIsReturn_sentinel [OF v1] vr v0 v1 n
  show ?thesis by (simp add: kResultIndex_def)
qed

text \<open>
  The definitions before argument \<open>n\<close> are the sum, over the locations of the first
  \<open>n\<close> arguments, of their definition counts. The next lemmas are about these prefix sums.
\<close>

lemma NumLocationDefinitions_nonneg: "\<forall>loc. 0 \<le> NumLocationDefinitions loc"
proof
  fix loc
  show "0 \<le> NumLocationDefinitions loc" by (cases loc) simp_all
qed

lemma NumDefinitions_arg_real:
  "i < length (argument_locations' (native_calling_convention' m)) \<Longrightarrow>
   NumDefinitions_arg count m (int i) =
     Some (count (argument_locations' (native_calling_convention' m) ! i))"
  by (simp add: NumDefinitions_arg_def ArgumentIndexIsReturn_def kResultIndex_def Location_def
      At_def)

lemma DefinitionsBefore_prefix:
  "n \<le> length (argument_locations' (native_calling_convention' m)) \<Longrightarrow>
   DefinitionsBefore count m n =
     Some (sum_list (map count (take n (argument_locations' (native_calling_convention' m)))))"
proof (induction n)
  case 0
  then show ?case by simp
next
  case (Suc n)
  then have n: "n < length (argument_locations' (native_calling_convention' m))" by simp
  with Suc show ?case
    by (simp add: NumDefinitions_arg_real take_Suc_conv_app_nth)
qed

lemma prefix_nonneg:
  fixes count :: "NativeLocation \<Rightarrow> int"
  assumes "\<forall>loc. 0 \<le> count loc"
  shows "0 \<le> sum_list (map count locs)"
  by (rule sum_list_nonneg) (use assms in auto)

lemma prefix_mono:
  fixes count :: "NativeLocation \<Rightarrow> int"
  assumes "\<forall>loc. 0 \<le> count loc" and "n \<le> n'"
  shows "sum_list (map count (take n locs)) \<le> sum_list (map count (take n' locs))"
  using assms(2)
proof (induction locs arbitrary: n n')
  case Nil
  then show ?case by simp
next
  case (Cons l locs)
  show ?case
  proof (cases n)
    case 0
    with prefix_nonneg [OF assms(1), of "take n' (l # locs)"] show ?thesis by simp
  next
    case (Suc k)
    with Cons.prems obtain k' where "n' = Suc k'" "k \<le> k'" by (cases n') auto
    with Suc Cons.IH [of k k'] show ?thesis by simp
  qed
qed

lemma prefix_Suc:
  fixes count :: "NativeLocation \<Rightarrow> int"
  shows "n < length locs \<Longrightarrow>
   sum_list (map count (take (Suc n) locs)) = sum_list (map count (take n locs)) + count (locs ! n)"
  by (simp add: take_Suc_conv_app_nth)

lemma prefix_covers:
  fixes count :: "NativeLocation \<Rightarrow> int"
  shows "0 \<le> g \<Longrightarrow> g < sum_list (map count (take n locs)) \<Longrightarrow> n \<le> length locs \<Longrightarrow>
   \<exists>j<n. sum_list (map count (take j locs)) \<le> g \<and> g < sum_list (map count (take (Suc j) locs))"
proof (induction n)
  case 0
  then show ?case by simp
next
  case (Suc n)
  show ?case
  proof (cases "g < sum_list (map count (take n locs))")
    case True
    with Suc obtain j where "j < n" "sum_list (map count (take j locs)) \<le> g"
      "g < sum_list (map count (take (Suc j) locs))" by auto
    then show ?thesis using less_Suc_eq by blast
  next
    case False
    with Suc.prems show ?thesis by (intro exI [of _ n]) simp
  qed
qed

text \<open>
  C3. Flattening consistency: \<^verbatim>\<open>NumDefinitions(arg)\<close> succeeds at every argument index
  \<open>0, \<dots>, num_args() - 1\<close>, and the sum of these counts is \<^verbatim>\<open>NumDefinitions()\<close>, the
  flattened count with the definitions of the return excluded. This holds whatever the
  definition count of a location is.
\<close>

theorem NumDefinitions_is_sum:
  "\<exists>counts.
     map (NumDefinitions_arg count m) (map int [0..<nat (num_args m)]) = map Some counts \<and>
     NumDefinitions count m = Some (sum_list counts)"
proof -
  define locs where "locs = argument_locations' (native_calling_convention' m)"
  have "map (NumDefinitions_arg count m) (map int [0..<nat (num_args m)])
      = map (\<lambda>i. Some (count (locs ! i))) [0..<length locs]"
    by (simp add: num_args_def locs_def NumDefinitions_arg_real)
  also have "\<dots> = map Some (map count locs)"
    by (rule nth_equalityI) simp_all
  finally have "map (NumDefinitions_arg count m) (map int [0..<nat (num_args m)])
      = map Some (map count locs)" .
  moreover have "NumDefinitions count m = Some (sum_list (map count locs))"
    using DefinitionsBefore_prefix [of "length locs" m count]
    by (simp add: NumDefinitions_def num_args_def locs_def)
  ultimately show ?thesis by blast
qed

theorem NumDefinitions_is_sum_witness:
  "map (NumDefinitions_arg NumLocationDefinitions struct_marshaller) [0, 1, 2]
     = [Some 1, Some 2, Some 1] \<and>
   NumDefinitions NumLocationDefinitions struct_marshaller = Some 4"
proof -
  have n: "nat (num_args struct_marshaller) = 3"
    by (simp add: num_args_def struct_marshaller_simps)
  have u: "map int [0..<3] = [0, 1, 2]"
    by (simp add: upt_rec)
  have a: "map (NumDefinitions_arg NumLocationDefinitions struct_marshaller) [0, 1, 2]
      = [Some 1, Some 2, Some 1]"
    by (simp add: NumDefinitions_arg_def ArgumentIndexIsReturn_def Location_def At_def
        kResultIndex_def struct_marshaller_simps)
  from NumDefinitions_is_sum [of NumLocationDefinitions struct_marshaller] obtain counts where
    "map (NumDefinitions_arg NumLocationDefinitions struct_marshaller)
       (map int [0..<nat (num_args struct_marshaller)]) = map Some counts"
    and t: "NumDefinitions NumLocationDefinitions struct_marshaller = Some (sum_list counts)"
    by blast
  with n u a have "map Some counts = map Some [1, 2, 1]" by simp
  then have "counts = [1, 2, 1]"
    by (auto simp: map_eq_Cons_conv)
  with t a show ?thesis by simp
qed

text \<open>
  The scan started at argument \<open>i\<close> with the definitions before \<open>i\<close> finds the
  argument \<open>j\<close> whose range of global indices holds \<open>g\<close>, provided no location has a
  negative count.
\<close>

lemma ArgumentIndexFrom_finds:
  fixes m :: "'a BaseMarshaller_scheme"
  defines "locs \<equiv> argument_locations' (native_calling_convention' m)"
  assumes nonneg: "\<forall>loc. 0 \<le> count loc"
    and "i + n = length locs" "i \<le> j" "j < length locs"
    and "sum_list (map count (take j locs)) \<le> g"
    and "g < sum_list (map count (take (Suc j) locs))"
  shows "ArgumentIndexFrom count m n (int i) (sum_list (map count (take i locs))) g = Some (int j)"
  using assms(3-)
proof (induction n arbitrary: i)
  case 0
  then show ?case by simp
next
  case (Suc n)
  have i: "i < length locs" using Suc.prems by simp
  have k: "NumDefinitions_arg count m (int i) = Some (count (locs ! i))"
    using i unfolding locs_def by (rule NumDefinitions_arg_real)
  show ?case
  proof (cases "g < sum_list (map count (take (Suc i) locs))")
    case True
    have "i = j"
    proof (rule ccontr)
      assume "i \<noteq> j"
      with Suc.prems have "Suc i \<le> j" by simp
      from prefix_mono [OF nonneg this, of locs] Suc.prems True show False by simp
    qed
    with True k i show ?thesis by (simp add: prefix_Suc)
  next
    case False
    with Suc.prems have "i \<noteq> j" by auto
    with Suc.prems have "Suc i \<le> j" by simp
    moreover have "Suc i + n = length locs" using Suc.prems by simp
    ultimately have "ArgumentIndexFrom count m n (int (Suc i))
        (sum_list (map count (take (Suc i) locs))) g = Some (int j)"
      using Suc.IH Suc.prems by blast
    with False k i show ?thesis by (simp add: prefix_Suc add.commute)
  qed
qed

text \<open>
  C1. The index round trip: for every argument index, the return sentinel included, and
  every local index within the definition count of that argument, \<^verbatim>\<open>DefinitionIndex\<close>
  yields a global index that \<^verbatim>\<open>ArgumentIndex\<close> maps back to the argument and
  \<^verbatim>\<open>DefinitionInArgument\<close> maps back to the local index. This holds whatever the
  definition count of a location is, as long as it is not negative.
\<close>

theorem index_round_trip:
  assumes nonneg: "\<forall>loc. 0 \<le> count loc"
    and valid: "valid_arg_index m arg_index"
    and num: "NumDefinitions_arg count m arg_index = Some n"
    and local: "0 \<le> local" "local < n"
  shows "\<exists>g. DefinitionIndex count m local arg_index = Some g \<and>
             ArgumentIndex count m g = Some arg_index \<and>
             DefinitionInArgument count m g arg_index = Some local"
proof (cases "arg_index = kResultIndex")
  case True
  with num local show ?thesis
    by (simp add: DefinitionIndex_def ArgumentIndex_def DefinitionInArgument_def
        ArgumentIndexIsReturn_def DefinitionIndexIsReturn_def NumDefinitions_arg_def)
next
  case False
  define locs where "locs = argument_locations' (native_calling_convention' m)"
  define j where "j = nat arg_index"
  define first where "first = sum_list (map count (take j locs))"
  from False valid have arg: "arg_index = int j" and j: "j < length locs"
    by (auto simp: valid_arg_index_def num_args_def j_def locs_def)
  have n: "n = count (locs ! j)"
    using num NumDefinitions_arg_real [of j m count] j by (simp add: arg locs_def)
  have first: "FirstDefinitionIndex count m arg_index = Some first"
    using False j DefinitionsBefore_prefix [of j m count]
    by (simp add: FirstDefinitionIndex_def ArgumentIndexIsReturn_def num_args_def arg
        locs_def first_def)
  have first_nonneg: "0 \<le> first"
    unfolding first_def by (rule prefix_nonneg [OF nonneg])
  have below: "first + local < sum_list (map count (take (Suc j) locs))"
    using j n local(2) by (simp add: prefix_Suc first_def)
  have "ArgumentIndexFrom count m (length locs) (int 0)
      (sum_list (map count (take 0 locs))) (first + local) = Some (int j)"
    unfolding locs_def
    by (rule ArgumentIndexFrom_finds [OF nonneg])
      (use j local(1) below in \<open>simp_all add: locs_def first_def\<close>)
  then have "ArgumentIndex count m (first + local) = Some arg_index"
    using first_nonneg local(1)
    by (simp add: ArgumentIndex_def DefinitionIndexIsReturn_def kResultIndex_def num_args_def
        locs_def arg)
  with first False show ?thesis
    by (simp add: DefinitionIndex_def DefinitionInArgument_def ArgumentIndexIsReturn_def)
qed

theorem index_round_trip_witness:
  "valid_arg_index struct_marshaller 1 \<and>
   NumDefinitions_arg NumLocationDefinitions struct_marshaller 1 = Some 2 \<and>
   DefinitionIndex NumLocationDefinitions struct_marshaller 1 1 = Some 2 \<and>
   ArgumentIndex NumLocationDefinitions struct_marshaller 2 = Some 1 \<and>
   DefinitionInArgument NumLocationDefinitions struct_marshaller 2 1 = Some 1 \<and>
   valid_arg_index struct_marshaller kResultIndex \<and>
   NumDefinitions_arg NumLocationDefinitions struct_marshaller kResultIndex = Some 1 \<and>
   DefinitionIndex NumLocationDefinitions struct_marshaller 0 kResultIndex = Some (- 1) \<and>
   ArgumentIndex NumLocationDefinitions struct_marshaller (- 1) = Some kResultIndex \<and>
   DefinitionInArgument NumLocationDefinitions struct_marshaller (- 1) kResultIndex = Some 0"
proof -
  note nn = NumLocationDefinitions_nonneg
  have vr: "valid_arg_index struct_marshaller kResultIndex"
    by (simp add: valid_arg_index_def)
  have nr: "NumDefinitions_arg NumLocationDefinitions struct_marshaller kResultIndex = Some 1"
    by (simp add: NumDefinitions_arg_def ArgumentIndexIsReturn_def NumReturnDefinitions_def
        struct_marshaller_simps)
  have dr: "DefinitionIndex NumLocationDefinitions struct_marshaller 0 kResultIndex = Some (- 1)"
    by (simp add: DefinitionIndex_def ArgumentIndexIsReturn_def kResultIndex_def)
  have v: "valid_arg_index struct_marshaller 1"
    by (simp add: valid_arg_index_def num_args_def struct_marshaller_simps)
  have n: "NumDefinitions_arg NumLocationDefinitions struct_marshaller 1 = Some 2"
    by (simp add: NumDefinitions_arg_def ArgumentIndexIsReturn_def Location_def At_def
        kResultIndex_def struct_marshaller_simps)
  have b: "DefinitionsBefore NumLocationDefinitions struct_marshaller (Suc 0) = Some 1"
    by (simp add: NumDefinitions_arg_def ArgumentIndexIsReturn_def Location_def At_def
        kResultIndex_def struct_marshaller_simps)
  have d: "DefinitionIndex NumLocationDefinitions struct_marshaller 1 1 = Some 2"
    using b
    by (simp add: DefinitionIndex_def FirstDefinitionIndex_def ArgumentIndexIsReturn_def
        kResultIndex_def num_args_def struct_marshaller_simps)
  from index_round_trip [OF nn v n, of 1] index_round_trip [OF nn vr nr, of 0] d v n dr vr nr
  show ?thesis by auto
qed

text \<open>
  The translation in the other direction: a global index of the flattened space belongs to
  one real argument, at a local index within the definition count of that argument, and
  \<^verbatim>\<open>DefinitionIndex\<close> leads back to it.
\<close>

lemma global_index_round_trip:
  assumes nonneg: "\<forall>loc. 0 \<le> count loc"
    and "NumDefinitions count m = Some n" and "0 \<le> g" and "g < n"
  shows "\<exists>arg_index local k.
           ArgumentIndex count m g = Some arg_index \<and> 0 \<le> arg_index \<and> arg_index < num_args m \<and>
           DefinitionInArgument count m g arg_index = Some local \<and>
           NumDefinitions_arg count m arg_index = Some k \<and> 0 \<le> local \<and> local < k \<and>
           DefinitionIndex count m local arg_index = Some g"
proof -
  define locs where "locs = argument_locations' (native_calling_convention' m)"
  have n: "n = sum_list (map count (take (length locs) locs))"
    using assms(2) DefinitionsBefore_prefix [of "length locs" m count]
    by (simp add: NumDefinitions_def num_args_def locs_def)
  from prefix_covers [OF assms(3), of count "length locs" locs] assms(4) n
  obtain j where j: "j < length locs"
    and lo: "sum_list (map count (take j locs)) \<le> g"
    and hi: "g < sum_list (map count (take (Suc j) locs))"
    by auto
  have "ArgumentIndexFrom count m (length locs) (int 0)
      (sum_list (map count (take 0 locs))) g = Some (int j)"
    unfolding locs_def
    by (rule ArgumentIndexFrom_finds [OF nonneg]) (use j lo hi in \<open>simp_all add: locs_def\<close>)
  then have a: "ArgumentIndex count m g = Some (int j)"
    using assms(3)
    by (simp add: ArgumentIndex_def DefinitionIndexIsReturn_def kResultIndex_def num_args_def
        locs_def)
  have first: "FirstDefinitionIndex count m (int j) = Some (sum_list (map count (take j locs)))"
    using j DefinitionsBefore_prefix [of j m count]
    by (simp add: FirstDefinitionIndex_def ArgumentIndexIsReturn_def kResultIndex_def
        num_args_def locs_def)
  have d: "DefinitionInArgument count m g (int j)
      = Some (g - sum_list (map count (take j locs)))"
    using first by (simp add: DefinitionInArgument_def ArgumentIndexIsReturn_def kResultIndex_def)
  have c: "NumDefinitions_arg count m (int j) = Some (count (locs ! j))"
    using j unfolding locs_def by (rule NumDefinitions_arg_real)
  have below: "g - sum_list (map count (take j locs)) < count (locs ! j)"
    using hi j by (simp add: prefix_Suc)
  have inverse: "DefinitionIndex count m (g - sum_list (map count (take j locs))) (int j) = Some g"
    using first by (simp add: DefinitionIndex_def ArgumentIndexIsReturn_def kResultIndex_def)
  show ?thesis
    using a d c below inverse lo j by (auto simp: num_args_def locs_def)
qed

end
